theory Spec2Isabelle
  imports Main "HOL-Library.Word" "HOL-Library.Signed_Division"
begin

section \<open>C values and local arrays\<close>

text \<open>
  The fixtures are C functions over \<open>int\<close>, \<open>unsigned int\<close> and \<open>char\<close>. An \<open>int\<close> is a
  32-bit word read in two's complement (\<open>sint\<close>), an \<open>unsigned int\<close> a 32-bit word read
  unsigned (\<open>uint\<close>); \<open>+\<close>, \<open>-\<close> and \<open>*\<close> wrap around. A byte is an 8-bit word and
  \<open>size_t\<close> a 64-bit word.
\<close>

type_synonym cint = "32 word"
type_synonym cuint = "32 word"
type_synonym byte = "8 word"
type_synonym size_t = "64 word"

text \<open>
  What C leaves undefined and the fixtures are written to provoke is a value of the
  model: an access below index 0, an access at or above the declared size, a
  remainder by zero, and the remainder of the least \<open>int\<close> by -1, whose quotient does
  not fit.
\<close>

datatype error = Underrun | Overrun | DivByZero | Overflow

text \<open>
  A local array \<open>T a[n]\<close> is the list of its \<open>n\<close> cells. A cell is \<open>None\<close> until it is
  written, since the fixtures never initialise their arrays. A declared size that is not
  positive gives no cell at all, so every index is out of bounds there.
\<close>

type_synonym 'a array = "'a option list"

definition declare_array :: "int \<Rightarrow> 'a array" where
  "declare_array n = replicate (nat n) None"

text \<open>\<open>a[i] = v\<close> cell by cell: the index is checked against 0 and the declared size.\<close>

definition store_cell :: "'a array \<Rightarrow> int \<Rightarrow> 'a option \<Rightarrow> error + 'a array" where
  "store_cell a i c =
     (if i < 0 then Inl Underrun
      else if int (length a) \<le> i then Inl Overrun
      else Inr (a[nat i := c]))"

definition store :: "'a array \<Rightarrow> int \<Rightarrow> 'a \<Rightarrow> error + 'a array" where
  "store a i v = store_cell a i (Some v)"

definition load_cell :: "'a array \<Rightarrow> int \<Rightarrow> error + 'a option" where
  "load_cell a i =
     (if i < 0 then Inl Underrun
      else if int (length a) \<le> i then Inl Overrun
      else Inr (a ! nat i))"

text \<open>
  C's \<open>%\<close> on \<open>int\<close> truncates towards zero: the remainder takes the sign of the
  dividend (\<open>smod\<close> on the signed values), where HOL's \<open>mod\<close> rounds down.
\<close>

definition c_rem :: "cint \<Rightarrow> cint \<Rightarrow> cint" where
  "c_rem a b = word_of_int (sint a smod sint b)"

section \<open>arith.c\<close>

text \<open>\<^verbatim>\<open>void modulo_signed_Bad(int i) { char arr[5]; arr[i % 5] = 123; }\<close>\<close>

definition modulo_signed_Bad :: "cint \<Rightarrow> error + byte array" where
  "modulo_signed_Bad i = (let arr = declare_array 5 in store arr (sint (c_rem i 5)) 123)"

text \<open>\<^verbatim>\<open>void modulo_unsigned_Good(unsigned int i) { char arr[5]; arr[i % 5] = 123; }\<close>\<close>

definition modulo_unsigned_Good :: "cuint \<Rightarrow> error + byte array" where
  "modulo_unsigned_Good i = (let arr = declare_array 5 in store arr (uint (i mod 5)) 123)"

text \<open>
  \<^verbatim>\<open>void modulo_unsigned_var_Good(unsigned int len, unsigned int i) {
    char arr[len]; arr[i % len] = 123; }\<close>
  The divisor is a variable here, so the remainder by zero is a branch of the model.
\<close>

definition modulo_unsigned_var_Good :: "cuint \<Rightarrow> cuint \<Rightarrow> error + byte array" where
  "modulo_unsigned_var_Good len i =
     (let arr = declare_array (uint len)
      in if len = 0 then Inl DivByZero else store arr (uint (i mod len)) 123)"

text \<open>\<^verbatim>\<open>unsigned int modulo_unsigned(unsigned int a, unsigned int b) { return a % b; }\<close>\<close>

definition modulo_unsigned :: "cuint \<Rightarrow> cuint \<Rightarrow> error + cuint" where
  "modulo_unsigned a b = (if b = 0 then Inl DivByZero else Inr (a mod b))"

text \<open>
  \<^verbatim>\<open>int modulo_signed(int a, int b) { return a % b; }\<close>
  Both operands are variables: the remainder by zero and \<open>INT_MIN % -1\<close> are branches
  of the model.
\<close>

definition modulo_signed :: "cint \<Rightarrow> cint \<Rightarrow> error + cint" where
  "modulo_signed a b =
     (if b = 0 then Inl DivByZero
      else if a = - (2 ^ 31) \<and> b = - 1 then Inl Overflow
      else Inr (c_rem a b))"

text \<open>
  \<^verbatim>\<open>int plus_linear_min(int i) {
    int linear = i + 1;
    if (i >= 0 && i < 10) { return linear + i; }
    return 0; }\<close>
\<close>

definition plus_linear_min :: "cint \<Rightarrow> cint" where
  "plus_linear_min i =
     (let linear = i + 1
      in if 0 \<le>s i \<and> i <s 10 then linear + i else 0)"

text \<open>\<^verbatim>\<open>void plus_linear_min_Good() { int a[20]; a[plus_linear_min(9)] = 1; }\<close>\<close>

definition plus_linear_min_Good :: "error + cint array" where
  "plus_linear_min_Good = (let a = declare_array 20 in store a (sint (plus_linear_min 9)) 1)"

text \<open>\<^verbatim>\<open>void plus_linear_min_Bad() { int a[19]; a[plus_linear_min(9)] = 1; }\<close>\<close>

definition plus_linear_min_Bad :: "error + cint array" where
  "plus_linear_min_Bad = (let a = declare_array 19 in store a (sint (plus_linear_min 9)) 1)"

section \<open>issue_kinds.c\<close>

text \<open>\<^verbatim>\<open>void l1_concrete_overrun_Bad() { int a[10]; a[10] = 0; }\<close>\<close>

definition l1_concrete_overrun_Bad :: "error + cint array" where
  "l1_concrete_overrun_Bad = (let a = declare_array 10 in store a (sint (10 :: cint)) 0)"

text \<open>\<^verbatim>\<open>void l1_concrete_underrun_Bad() { int a[10]; a[-1] = 0; }\<close>\<close>

definition l1_concrete_underrun_Bad :: "error + cint array" where
  "l1_concrete_underrun_Bad = (let a = declare_array 10 in store a (sint (- 1 :: cint)) 0)"

text \<open>\<^verbatim>\<open>int zero_or_ten(int ten) { if (ten) { return 10; } else { return 0; } }\<close>\<close>

definition zero_or_ten :: "cint \<Rightarrow> cint" where
  "zero_or_ten ten = (if ten \<noteq> 0 then 10 else 0)"

text \<open>
  \<^verbatim>\<open>void l2_symbolic_no_overrun_Good(int n) {
    int a[n];
    if (n > 0) { a[n - 1] = 0; } }\<close>
\<close>

definition l2_symbolic_no_overrun_Good :: "cint \<Rightarrow> error + cint array" where
  "l2_symbolic_no_overrun_Good n =
     (let a = declare_array (sint n)
      in if 0 <s n then store a (sint (n - 1)) 0 else Inr a)"

text \<open>\<^verbatim>\<open>void may_underrun_symbolic_Nowarn_Good(int n) { int a[n]; a[n - 1] = 0; }\<close>\<close>

definition may_underrun_symbolic_Nowarn_Good :: "cint \<Rightarrow> error + cint array" where
  "may_underrun_symbolic_Nowarn_Good n =
     (let a = declare_array (sint n) in store a (sint (n - 1)) 0)"

text \<open>
  The allocator is outside the repository. The fixtures only hand it a size and drop the
  pointer, so the heap of the model is the list of the sizes requested so far, each the
  signed value of the \<open>int\<close> expression the fixture passes.
\<close>

type_synonym heap = "int list"

definition malloc :: "cint \<Rightarrow> heap \<Rightarrow> heap" where
  "malloc sz h = h @ [sint sz]"

text \<open>\<^verbatim>\<open>void alloc_may_be_negative_Bad() { malloc(zero_or_ten(0) - 5); }\<close>\<close>

definition alloc_may_be_negative_Bad :: "heap \<Rightarrow> heap" where
  "alloc_may_be_negative_Bad h = malloc (zero_or_ten 0 - 5) h"

text \<open>\<^verbatim>\<open>void alloc_is_big_Bad() { malloc(2 * 1000 * 1000 * 1000); }\<close>\<close>

definition alloc_is_big_Bad :: "heap \<Rightarrow> heap" where
  "alloc_is_big_Bad h = malloc (2 * 1000 * 1000 * 1000) h"

text \<open>
  \<^verbatim>\<open>int zero_to_infty() {
    int r = 0;
    for (int i = 0; i < zero_or_ten(0); i++) { r++; }
    return r; }\<close>
  The loop is a recursion on the pair of \<open>i\<close> and \<open>r\<close>; it calls \<open>zero_or_ten(0)\<close> at
  every test, as the source does. It terminates because the distance from \<open>i\<close> to the
  bound shrinks: below the bound \<open>i + 1\<close> does not wrap.
\<close>

function zero_to_infty_loop :: "cint \<Rightarrow> cint \<Rightarrow> cint" where
  "zero_to_infty_loop i r =
     (if i <s zero_or_ten 0 then zero_to_infty_loop (i + 1) (r + 1) else r)"
  by pat_completeness auto
termination
proof (relation "measure (\<lambda>(i, r). nat (sint (zero_or_ten 0) - sint i))")
  show "wf (measure (\<lambda>(i, r). nat (sint (zero_or_ten 0) - sint i)))"
    by simp
next
  fix i r :: cint
  assume "i <s zero_or_ten 0"
  then have neg: "sint i < 0"
    by (simp add: zero_or_ten_def word_sless_alt)
  then have "sint (i + 1) = sint i + 1"
    using sint_ge [of i] by (simp add: sint_word_add signed_take_bit_int_eq_self)
  with neg show
    "((i + 1, r + 1), (i, r)) \<in> measure (\<lambda>(i, r). nat (sint (zero_or_ten 0) - sint i))"
    by (simp add: zero_or_ten_def)
qed

definition zero_to_infty :: cint where
  "zero_to_infty = zero_to_infty_loop 0 0"

section \<open>models.c\<close>

text \<open>
  The bulk operations work on bytes, so here \<open>int arr[10]\<close> is the array of its
  \<open>10 * sizeof(int)\<close> bytes, with \<open>sizeof(int) = 4\<close> as for the 32-bit \<open>int\<close> above.
\<close>

definition sizeof_int :: int where
  "sizeof_int = 4"

text \<open>An access of a bulk operation: the byte offset read in the source or written in the destination.\<close>

datatype access = ReadSrc nat | WriteDst nat

text \<open>A bulk operation that fails reports the error together with the access that failed.\<close>

type_synonym fault = "error \<times> access"

text \<open>
  Modelled from the spec: \<open>memcpy\<close> and \<open>memset\<close> are C library functions; the sources
  call them and do not define them. The spec names them as the bulk operations whose
  length is checked against the sizes of the buffers, and the model gives them the
  contract of the C library: \<open>memcpy(dst, src, n)\<close> reads byte \<open>k\<close> of the source and
  writes it to byte \<open>k\<close> of the destination for \<open>k = 0, ..., n - 1\<close>, and
  \<open>memset(dst, c, n)\<close> writes the byte \<open>c\<close> to these offsets of the destination. Each
  access is checked against the buffer's size like any other. The operation stops at
  the first access that fails and reports it; otherwise the accesses made are returned
  with the destination.
\<close>

primrec memcpy_from ::
  "nat \<Rightarrow> nat \<Rightarrow> byte array \<Rightarrow> byte array \<Rightarrow> access list
   \<Rightarrow> fault + byte array \<times> access list"
where
  "memcpy_from 0 k dst src tr = Inr (dst, tr)"
| "memcpy_from (Suc n) k dst src tr =
     (case load_cell src (int k) of
        Inl e \<Rightarrow> Inl (e, ReadSrc k)
      | Inr c \<Rightarrow>
          (case store_cell dst (int k) c of
             Inl e \<Rightarrow> Inl (e, WriteDst k)
           | Inr dst' \<Rightarrow> memcpy_from n (Suc k) dst' src (tr @ [ReadSrc k, WriteDst k])))"

definition memcpy ::
  "byte array \<Rightarrow> byte array \<Rightarrow> size_t \<Rightarrow> fault + byte array \<times> access list" where
  "memcpy dst src n = memcpy_from (unat n) 0 dst src []"

primrec memset_from ::
  "nat \<Rightarrow> nat \<Rightarrow> byte array \<Rightarrow> byte \<Rightarrow> access list
   \<Rightarrow> fault + byte array \<times> access list"
where
  "memset_from 0 k dst b tr = Inr (dst, tr)"
| "memset_from (Suc n) k dst b tr =
     (case store dst (int k) b of
        Inl e \<Rightarrow> Inl (e, WriteDst k)
      | Inr dst' \<Rightarrow> memset_from n (Suc k) dst' b (tr @ [WriteDst k]))"

definition memset ::
  "byte array \<Rightarrow> cint \<Rightarrow> size_t \<Rightarrow> fault + byte array \<times> access list" where
  "memset dst c n = memset_from (unat n) 0 dst (ucast c) []"

text \<open>
  \<^verbatim>\<open>void memcpy_bad1() { int arr1[10]; int arr2[20]; memcpy(arr1, arr2, 44); }\<close>
  The length is an \<open>int\<close> literal converted to \<open>size_t\<close>.
\<close>

definition memcpy_bad1 :: "fault + byte array \<times> access list" where
  "memcpy_bad1 =
     (let arr1 = declare_array (10 * sizeof_int);
          arr2 = declare_array (20 * sizeof_int)
      in memcpy arr1 arr2 (scast (44 :: cint)))"

text \<open>\<^verbatim>\<open>void memcpy_good2() { int arr1[10]; int arr2[20]; memcpy(arr2, arr1, 0); }\<close>\<close>

definition memcpy_good2 :: "fault + byte array \<times> access list" where
  "memcpy_good2 =
     (let arr1 = declare_array (10 * sizeof_int);
          arr2 = declare_array (20 * sizeof_int)
      in memcpy arr2 arr1 (scast (0 :: cint)))"

text \<open>\<^verbatim>\<open>void memset_good2() { int arr[10]; memset(arr, 0, 0); }\<close>\<close>

definition memset_good2 :: "fault + byte array \<times> access list" where
  "memset_good2 =
     (let arr = declare_array (10 * sizeof_int) in memset arr 0 (scast (0 :: cint)))"

section \<open>The check of a bulk operation\<close>

text \<open>
  Modelled from the spec: the analyzer that the fixtures test is not among the sources.
  Its check of a bulk operation is section 4.3 of the specification: the interval of
  the length argument is compared with the declared size of the buffer; a length that
  may be negative, or whose upper bound exceeds the size, is a finding; a length that is
  exactly zero is never one. The lengths of the fixtures are literals, so an interval
  with concrete bounds is all that is modelled.
\<close>

record itv =
  lower :: int
  upper :: int

definition itv_of_const :: "int \<Rightarrow> itv" where
  "itv_of_const c = \<lparr>lower = c, upper = c\<rparr>"

definition bulk_finding :: "itv \<Rightarrow> int \<Rightarrow> bool" where
  "bulk_finding len buf_size =
     (if lower len = 0 \<and> upper len = 0 then False
      else lower len < 0 \<or> buf_size < upper len)"

section \<open>Facts about the 32-bit arithmetic\<close>

lemma sint_word_of_int_cint:
  "- (2 ^ 31) \<le> k \<Longrightarrow> k < 2 ^ 31 \<Longrightarrow> sint (word_of_int k :: cint) = k"
  by (simp add: sint_sbintrunc' signed_take_bit_int_eq_self)

lemma sint_plus_cint:
  "- (2 ^ 31) \<le> sint a + sint b \<Longrightarrow> sint a + sint b < 2 ^ 31
   \<Longrightarrow> sint (a + b :: cint) = sint a + sint b"
  by (simp add: sint_word_add signed_take_bit_int_eq_self)

lemma smod_5_bounds: "- 4 \<le> (k::int) smod 5 \<and> k smod 5 \<le> 4"
  by (cases "k < 0"; cases "k = 0"; simp add: signed_modulo_int_def sgn_if; presburger?)

lemma sint_c_rem_5: "sint (c_rem i 5) = sint i smod 5"
proof -
  have b: "- 4 \<le> sint i smod 5 \<and> sint i smod 5 \<le> 4"
    by (rule smod_5_bounds)
  have "sint (word_of_int (sint i smod 5) :: cint) = sint i smod 5"
    by (rule sint_word_of_int_cint) (use b in simp_all)
  then show ?thesis
    by (simp add: c_rem_def)
qed

lemma uint_mod_less: "len \<noteq> 0 \<Longrightarrow> uint ((i::cuint) mod len) < uint len"
  by (simp add: uint_mod_distrib word_neq_0_conv word_less_def)

lemma length_declare_array: "int (length (declare_array n)) = max 0 n"
  by (simp add: declare_array_def)

lemma sint_minus_one_cint: "0 <s (n::cint) \<Longrightarrow> sint (n - 1) = sint n - 1"
  using sint_lt [of n] by (simp add: sint_word_diff signed_take_bit_int_eq_self word_sless_alt)

lemma memcpy_from_within:
  "k + n \<le> length dst \<Longrightarrow> k + n \<le> length src
   \<Longrightarrow> \<exists>d t. memcpy_from n k dst src tr = Inr (d, t) \<and> length d = length dst"
proof (induction n arbitrary: k dst tr)
  case 0
  then show ?case
    by simp
next
  case (Suc n)
  have "\<exists>d t. memcpy_from n (Suc k) (dst[k := src ! k]) src (tr @ [ReadSrc k, WriteDst k])
      = Inr (d, t) \<and> length d = length (dst[k := src ! k])"
    by (rule Suc.IH) (use Suc.prems in simp_all)
  with Suc.prems show ?case
    by (simp add: load_cell_def store_cell_def)
qed

lemma memcpy_from_past_dst:
  "length dst < k + n \<Longrightarrow> k \<le> length dst \<Longrightarrow> k + n \<le> length src
   \<Longrightarrow> memcpy_from n k dst src tr = Inl (Overrun, WriteDst (length dst))"
proof (induction n arbitrary: k dst tr)
  case 0
  then show ?case
    by simp
next
  case (Suc n)
  show ?case
  proof (cases "k = length dst")
    case True
    with Suc.prems show ?thesis
      by (simp add: load_cell_def store_cell_def)
  next
    case False
    with Suc.prems have lt: "k < length dst"
      by simp
    have "memcpy_from n (Suc k) (dst[k := src ! k]) src (tr @ [ReadSrc k, WriteDst k])
        = Inl (Overrun, WriteDst (length (dst[k := src ! k])))"
      by (rule Suc.IH) (use Suc.prems lt in simp_all)
    with lt Suc.prems show ?thesis
      by (simp add: load_cell_def store_cell_def)
  qed
qed

section \<open>Properties of arith.c\<close>

text \<open>
  C1. For every \<open>int i\<close> the value of \<open>i % 5\<close> (what \<open>modulo_signed i 5\<close> returns) lies
  in \<open>[-4, 4]\<close> and is the truncating remainder of \<open>i\<close>. For a negative \<open>i\<close> (\<open>i = -1\<close>) it
  is negative, so it is not confined to \<open>[0, 4]\<close>, and for that \<open>i\<close> the store
  \<open>arr[i % 5]\<close> of \<open>modulo_signed_Bad\<close> falls below the array.
\<close>

theorem modulo_signed_range:
  "(\<exists>r. modulo_signed i 5 = Inr r \<and> sint r = sint i smod 5 \<and> - 4 \<le> sint r \<and> sint r \<le> 4)
   \<and> (\<exists>j r. sint j < 0 \<and> modulo_signed j 5 = Inr r \<and> sint r < 0)
   \<and> (\<exists>j. modulo_signed_Bad j = Inl Underrun)"
proof (intro conjI)
  show "\<exists>r. modulo_signed i 5 = Inr r \<and> sint r = sint i smod 5 \<and> - 4 \<le> sint r \<and> sint r \<le> 4"
    using smod_5_bounds [of "sint i"] by (simp add: modulo_signed_def sint_c_rem_5)
  have "sint (- 1 :: cint) < 0 \<and> modulo_signed (- 1) 5 = Inr (- 1) \<and> sint (- 1 :: cint) < 0"
    by (simp add: modulo_signed_def c_rem_def signed_modulo_int_def)
  then show "\<exists>j r. sint j < 0 \<and> modulo_signed j 5 = Inr r \<and> sint r < 0"
    by blast
  have "modulo_signed_Bad (- 1) = Inl Underrun"
    by (simp add: modulo_signed_Bad_def c_rem_def signed_modulo_int_def store_def
        store_cell_def declare_array_def)
  then show "\<exists>j. modulo_signed_Bad j = Inl Underrun" ..
qed

text \<open>
  C9. For unsigned \<open>i\<close> and unsigned \<open>len > 0\<close> the remainder \<open>i % len\<close> is at least 0 and
  below \<open>len\<close>. Hence the store of \<open>modulo_unsigned_Good\<close> into \<open>char arr[5]\<close> succeeds for
  every \<open>i\<close>, and the store of \<open>modulo_unsigned_var_Good\<close> into \<open>char arr[len]\<close> succeeds for
  every \<open>i\<close> and every \<open>len > 0\<close>.
\<close>

theorem modulo_unsigned_in_bounds:
  assumes "0 < len"
  shows "(\<exists>r. modulo_unsigned i len = Inr r \<and> 0 \<le> uint r \<and> uint r < uint len)
    \<and> 0 \<le> uint (i mod 5) \<and> uint (i mod 5) < 5
    \<and> modulo_unsigned_Good i = Inr ((declare_array 5)[nat (uint (i mod 5)) := Some 123])
    \<and> modulo_unsigned_var_Good len i
        = Inr ((declare_array (uint len))[nat (uint (i mod len)) := Some 123])"
proof -
  from assms have nz: "len \<noteq> 0"
    by (simp add: word_neq_0_conv)
  have var: "uint (i mod len) < uint len"
    using nz by (rule uint_mod_less)
  have five: "uint (i mod 5) < 5"
    using uint_mod_less [of 5 i] by simp
  have "\<exists>r. modulo_unsigned i len = Inr r \<and> 0 \<le> uint r \<and> uint r < uint len"
    using nz var by (simp add: modulo_unsigned_def)
  moreover have "modulo_unsigned_Good i = Inr ((declare_array 5)[nat (uint (i mod 5)) := Some 123])"
    using five by (simp add: modulo_unsigned_Good_def store_def store_cell_def declare_array_def)
  moreover have "modulo_unsigned_var_Good len i
        = Inr ((declare_array (uint len))[nat (uint (i mod len)) := Some 123])"
    using nz var
    by (simp add: modulo_unsigned_var_Good_def store_def store_cell_def declare_array_def)
  ultimately show ?thesis
    using five by simp
qed

theorem modulo_unsigned_in_bounds_witness:
  "(0::cuint) < 7
   \<and> modulo_unsigned 23 7 = Inr 2
   \<and> modulo_unsigned_Good 23 = Inr [None, None, None, Some 123, None]
   \<and> modulo_unsigned_var_Good 7 23 = Inr [None, None, Some 123, None, None, None, None]"
proof -
  have h: "(0::cuint) < 7"
    by simp
  have r: "(23::cuint) mod 7 = 2" "(23::cuint) mod 5 = 3"
    by simp_all
  have a5: "(declare_array 5 :: byte array)[3 := Some 123] = [None, None, None, Some 123, None]"
    by code_simp
  have a7: "(declare_array 7 :: byte array)[2 := Some 123]
      = [None, None, Some 123, None, None, None, None]"
    by code_simp
  have m: "modulo_unsigned 23 7 = Inr 2"
    by (simp add: modulo_unsigned_def)
  show ?thesis
    using h m modulo_unsigned_in_bounds [OF h, of 23] unfolding r
    by (simp add: a5 a7)
qed

text \<open>
  C10. \<open>plus_linear_min i\<close> is \<open>2 * i + 1\<close> for \<open>0 \<le> i < 10\<close> and 0 for every other \<open>i\<close>,
  as signed values and without wrap-around in the first case. So \<open>plus_linear_min 9\<close> is
  19: the store \<open>a[19]\<close> succeeds in \<open>plus_linear_min_Good\<close> (\<open>int a[20]\<close>) and overruns in
  \<open>plus_linear_min_Bad\<close> (\<open>int a[19]\<close>).
\<close>

theorem plus_linear_min_value:
  "sint (plus_linear_min i) = (if 0 \<le> sint i \<and> sint i < 10 then 2 * sint i + 1 else 0)
   \<and> plus_linear_min 9 = 19
   \<and> plus_linear_min_Good = Inr ((declare_array 20)[19 := Some 1])
   \<and> plus_linear_min_Bad = Inl Overrun"
proof (intro conjI)
  show "sint (plus_linear_min i) = (if 0 \<le> sint i \<and> sint i < 10 then 2 * sint i + 1 else 0)"
  proof (cases "0 \<le> sint i \<and> sint i < 10")
    case True
    then have s1: "sint (i + 1) = sint i + 1"
      by (simp add: sint_plus_cint)
    have "sint ((i + 1) + i) = sint (i + 1) + sint i"
      by (rule sint_plus_cint) (use True s1 in simp_all)
    with s1 have s2: "sint ((i + 1) + i) = 2 * sint i + 1"
      by simp
    have "plus_linear_min i = (i + 1) + i"
      using True unfolding plus_linear_min_def Let_def
      by (simp only: word_sle_eq word_sless_alt sint_0) simp
    with s2 True show ?thesis
      by (simp only: if_True simp_thms)
  next
    case False
    then show ?thesis
      by (auto simp add: plus_linear_min_def word_sle_eq word_sless_alt)
  qed
  show "plus_linear_min 9 = 19"
    by (simp add: plus_linear_min_def word_sle_eq word_sless_alt)
  show "plus_linear_min_Good = Inr ((declare_array 20)[19 := Some 1])"
    by (simp add: plus_linear_min_Good_def plus_linear_min_def store_def store_cell_def
        declare_array_def word_sle_eq word_sless_alt)
  show "plus_linear_min_Bad = Inl Overrun"
    by (simp add: plus_linear_min_Bad_def plus_linear_min_def store_def store_cell_def
        declare_array_def word_sle_eq word_sless_alt)
qed

section \<open>Properties of issue_kinds.c\<close>

text \<open>
  C2. \<open>l1_concrete_overrun_Bad\<close> declares an array of 10 cells and stores at index 10,
  which is not below the size: the function has no input and always overruns.
  \<open>l1_concrete_underrun_Bad\<close> declares the same array and stores at index -1, which is
  below 0: it always underruns.
\<close>

theorem l1_concrete_definite:
  "int (length (declare_array 10 :: cint array)) = 10
   \<and> l1_concrete_overrun_Bad = Inl Overrun
   \<and> l1_concrete_underrun_Bad = Inl Underrun"
  by (simp add: l1_concrete_overrun_Bad_def l1_concrete_underrun_Bad_def store_def
      store_cell_def declare_array_def)

text \<open>
  C4. Under the guard \<open>n > 0\<close> the index \<open>n - 1\<close> is at least 0 and below the declared
  size \<open>n\<close>, and the store of \<open>l2_symbolic_no_overrun_Good\<close> succeeds; without the guard
  holding the function makes no access. So it returns normally for every \<open>n\<close>.
  \<open>may_underrun_symbolic_Nowarn_Good\<close> has no guard, and at \<open>n = 0\<close> its index -1 is out
  of bounds.
\<close>

theorem l2_symbolic_no_overrun_Good_safe:
  "(0 <s n \<longrightarrow>
      0 \<le> sint (n - 1) \<and> sint (n - 1) < sint n
      \<and> l2_symbolic_no_overrun_Good n
          = Inr ((declare_array (sint n))[nat (sint (n - 1)) := Some 0]))
   \<and> (\<exists>a. l2_symbolic_no_overrun_Good n = Inr a)
   \<and> (\<exists>m. may_underrun_symbolic_Nowarn_Good m = Inl Underrun)"
proof (intro conjI impI)
  assume g: "0 <s n"
  then have pos: "0 < sint n"
    by (simp add: word_sless_alt)
  have idx: "sint (n - 1) = sint n - 1"
    using g by (rule sint_minus_one_cint)
  from pos idx show "0 \<le> sint (n - 1)" and "sint (n - 1) < sint n"
    by simp_all
  from g pos idx show "l2_symbolic_no_overrun_Good n
      = Inr ((declare_array (sint n))[nat (sint (n - 1)) := Some 0])"
    by (simp add: l2_symbolic_no_overrun_Good_def store_def store_cell_def declare_array_def)
next
  show "\<exists>a. l2_symbolic_no_overrun_Good n = Inr a"
  proof (cases "0 <s n")
    case True
    then have "0 < sint n" and "sint (n - 1) = sint n - 1"
      by (simp_all add: word_sless_alt sint_minus_one_cint)
    with True show ?thesis
      by (simp add: l2_symbolic_no_overrun_Good_def store_def store_cell_def declare_array_def)
  next
    case False
    then show ?thesis
      by (simp add: l2_symbolic_no_overrun_Good_def)
  qed
next
  have "may_underrun_symbolic_Nowarn_Good 0 = Inl Underrun"
    by (simp add: may_underrun_symbolic_Nowarn_Good_def store_def store_cell_def)
  then show "\<exists>m. may_underrun_symbolic_Nowarn_Good m = Inl Underrun" ..
qed

theorem l2_symbolic_no_overrun_Good_safe_witness:
  "0 <s (3 :: cint)
   \<and> l2_symbolic_no_overrun_Good 3 = Inr [None, None, Some 0]
   \<and> may_underrun_symbolic_Nowarn_Good 0 = Inl Underrun"
proof -
  have g: "0 <s (3 :: cint)"
    by (simp add: word_sless_alt)
  have a: "(declare_array 3 :: cint array)[2 := Some 0] = [None, None, Some 0]"
    by code_simp
  have u: "may_underrun_symbolic_Nowarn_Good 0 = Inl Underrun"
    by (simp add: may_underrun_symbolic_Nowarn_Good_def store_def store_cell_def)
  from l2_symbolic_no_overrun_Good_safe [of 3] g
  have "l2_symbolic_no_overrun_Good 3 = Inr ((declare_array (sint (3 :: cint)))[nat (sint (3 - 1 :: cint)) := Some 0])"
    by blast
  with g a u show ?thesis
    by simp
qed

text \<open>
  C6. \<open>zero_or_ten\<close> returns 10 for a nonzero argument and 0 for zero. The size that
  \<open>alloc_may_be_negative_Bad\<close> passes to \<open>malloc\<close> is therefore exactly -5, whatever was
  allocated before.
\<close>

theorem zero_or_ten_alloc_negative:
  "zero_or_ten ten = (if ten = 0 then 0 else 10)
   \<and> sint (zero_or_ten 0 - 5) = - 5
   \<and> alloc_may_be_negative_Bad h = h @ [- 5]"
  by (simp add: zero_or_ten_def alloc_may_be_negative_Bad_def malloc_def)

text \<open>
  C7. \<open>zero_to_infty\<close> is a total function and its value is 0: the bound
  \<open>zero_or_ten 0\<close> is 0, the loop test fails at \<open>i = 0\<close>, and the loop entered with
  \<open>i = 0\<close> returns \<open>r\<close> as it was.
\<close>

theorem zero_to_infty_is_zero:
  "zero_or_ten 0 = 0
   \<and> \<not> (0 :: cint) <s zero_or_ten 0
   \<and> zero_to_infty_loop 0 r = r
   \<and> zero_to_infty = 0
   \<and> sint zero_to_infty = 0"
  by (simp add: zero_to_infty_def zero_or_ten_def)

text \<open>
  C8. The size \<open>2 * 1000 * 1000 * 1000\<close> of \<open>alloc_is_big_Bad\<close>, computed on 32-bit
  words, has the signed value 2000000000, which is the product over the integers: no
  partial product wraps, since 2000000000 is below \<open>2 ^ 31\<close>.
\<close>

theorem alloc_is_big_exact:
  "alloc_is_big_Bad h = h @ [2000000000]
   \<and> sint (2 * 1000 :: cint) = 2 * 1000
   \<and> sint (2 * 1000 * 1000 :: cint) = 2 * 1000 * 1000
   \<and> sint (2 * 1000 * 1000 * 1000 :: cint) = 2 * 1000 * 1000 * 1000
   \<and> (2 * 1000 * 1000 * 1000 :: int) = 2000000000
   \<and> (2000000000 :: int) < 2 ^ 31"
  by (simp add: alloc_is_big_Bad_def malloc_def)

section \<open>Properties of models.c\<close>

text \<open>
  C3. In \<open>memcpy_bad1\<close> the destination \<open>int arr1[10]\<close> has 40 bytes, the source
  \<open>int arr2[20]\<close> has 80 and the length is 44. A copy of 40 bytes between these
  buffers succeeds, and the copy of 44 fails at the write of byte 40 of the
  destination, the first byte past its end: every read of the source before it is in
  bounds. The same holds for any destination of 40 bytes and any source of at least 44,
  whatever they hold. The condition of the bulk-operation check holds for the length 44
  and the size 40.
\<close>

theorem memcpy_bad1_overrun:
  "int (length (declare_array (10 * sizeof_int) :: byte array)) = 40
   \<and> int (length (declare_array (20 * sizeof_int) :: byte array)) = 80
   \<and> unat (scast (44 :: cint) :: size_t) = 44
   \<and> (\<exists>d t. memcpy (declare_array (10 * sizeof_int)) (declare_array (20 * sizeof_int)) 40
          = Inr (d, t))
   \<and> memcpy_bad1 = Inl (Overrun, WriteDst 40)
   \<and> (length dst = 40 \<and> 44 \<le> length src
        \<longrightarrow> memcpy dst src 44 = Inl (Overrun, WriteDst 40))
   \<and> bulk_finding (itv_of_const 44) (10 * sizeof_int)"
proof (intro conjI impI)
  show "int (length (declare_array (10 * sizeof_int) :: byte array)) = 40"
    by (simp add: declare_array_def sizeof_int_def)
  show "int (length (declare_array (20 * sizeof_int) :: byte array)) = 80"
    by (simp add: declare_array_def sizeof_int_def)
  show "unat (scast (44 :: cint) :: size_t) = 44"
    by simp
  have "\<exists>d t. memcpy_from 40 0 (declare_array (10 * sizeof_int))
      (declare_array (20 * sizeof_int)) [] = Inr (d, t)
      \<and> length d = length (declare_array (10 * sizeof_int) :: byte array)"
    by (rule memcpy_from_within) (simp_all add: declare_array_def sizeof_int_def)
  then show "\<exists>d t. memcpy (declare_array (10 * sizeof_int))
      (declare_array (20 * sizeof_int)) 40 = Inr (d, t)"
    by (auto simp add: memcpy_def)
  have "memcpy_from 44 0 (declare_array (10 * sizeof_int)) (declare_array (20 * sizeof_int)) []
      = Inl (Overrun, WriteDst (length (declare_array (10 * sizeof_int) :: byte array)))"
    by (rule memcpy_from_past_dst) (simp_all add: declare_array_def sizeof_int_def)
  then show "memcpy_bad1 = Inl (Overrun, WriteDst 40)"
    by (simp add: memcpy_bad1_def memcpy_def declare_array_def sizeof_int_def)
  show "bulk_finding (itv_of_const 44) (10 * sizeof_int)"
    by (simp add: bulk_finding_def itv_of_const_def sizeof_int_def)
next
  assume a: "length dst = 40 \<and> 44 \<le> length src"
  have "memcpy_from 44 0 dst src [] = Inl (Overrun, WriteDst (length dst))"
    by (rule memcpy_from_past_dst) (use a in simp_all)
  with a show "memcpy dst src 44 = Inl (Overrun, WriteDst 40)"
    by (simp add: memcpy_def)
qed

theorem memcpy_bad1_overrun_witness:
  "length (replicate 40 (Some 7) :: byte array) = 40
   \<and> 44 \<le> length (replicate 80 (Some 9) :: byte array)
   \<and> memcpy (replicate 40 (Some 7)) (replicate 80 (Some 9)) 44 = Inl (Overrun, WriteDst 40)"
  using memcpy_bad1_overrun [of "replicate 40 (Some 7)" "replicate 80 (Some 9)"]
  by simp

text \<open>
  C5. A copy or a fill of length zero makes no access and returns the destination as
  it was, for any buffers. So the calls of \<open>memcpy_good2\<close> and \<open>memset_good2\<close> return
  normally, with their destinations untouched, and the bulk-operation check has no
  finding for a length that is exactly zero, whatever the size of the buffer.
\<close>

theorem bulk_zero_length:
  "memcpy dst src 0 = Inr (dst, [])
   \<and> memset dst c 0 = Inr (dst, [])
   \<and> memcpy_good2 = Inr (declare_array (20 * sizeof_int), [])
   \<and> memset_good2 = Inr (declare_array (10 * sizeof_int), [])
   \<and> \<not> bulk_finding (itv_of_const 0) buf_size"
  by (simp add: memcpy_def memset_def memcpy_good2_def memset_good2_def bulk_finding_def
      itv_of_const_def)

end
